theory Spec2Isabelle
  imports Main "HOL-Library.Word"
begin

section \<open>JavaScript and BSON values\<close>


type_synonym Buffer = "8 word list"

type_synonym Long = "64 word"

datatype jsval = JUndefined | JNumber int | JString string

record js_error =
  error_name :: string
  error_code :: jsval

definition TypeError :: js_error where
  "TypeError = \<lparr>error_name = ''TypeError'', error_code = JUndefined\<rparr>"

text \<open>
  \<open>Long.fromNumber\<close> of the driver, on integers: values at or below \<open>-2^63\<close> become
  \<open>Long.MIN_VALUE\<close>, values \<open>n\<close> with \<open>n + 1 \<ge> 2^63\<close> become \<open>Long.MAX_VALUE\<close>, a negative
  value is the negation of the conversion of its absolute value, and every other value is
  converted exactly.
\<close>

definition Long_MIN_VALUE :: Long where
  "Long_MIN_VALUE = word_of_int (- (2 ^ 63))"

definition Long_MAX_VALUE :: Long where
  "Long_MAX_VALUE = word_of_int (2 ^ 63 - 1)"

definition Long_fromNumber :: "int \<Rightarrow> Long" where
  "Long_fromNumber n =
     (if n \<le> - (2 ^ 63) then Long_MIN_VALUE
      else if 2 ^ 63 \<le> n + 1 then Long_MAX_VALUE
      else if n < 0 then - word_of_int (- n)
      else word_of_int n)"

text \<open>
  Reading a document back, the driver ``automatically converts longs to numbers''
  (the comment above \<open>convertToOperation\<close>), as far as the number is exact: a long
  from \<open>-2^53\<close> to \<open>2^53\<close> is handed on as the number of its value, any other long as
  the \<open>Long\<close> object.
\<close>

datatype promoted_long = Number int | LongObject Long

definition promoteLong :: "Long \<Rightarrow> promoted_long" where
  "promoteLong w =
     (if - (2 ^ 53) \<le> sint w \<and> sint w \<le> 2 ^ 53 then Number (sint w) else LongObject w)"

datatype bson = BNull | BNumber int | BLong Long | BString string | BBinary Buffer

text \<open>
  MongoDB's comparison order of the value kinds that occur here: null, then numbers
  (compared by value whatever their width), then strings, then binary data.
\<close>

fun canonical_type :: "bson \<Rightarrow> nat" where
  "canonical_type BNull = 1"
| "canonical_type (BNumber i) = 2"
| "canonical_type (BLong w) = 2"
| "canonical_type (BString s) = 3"
| "canonical_type (BBinary b) = 4"

fun numeric_value :: "bson \<Rightarrow> int" where
  "numeric_value (BNumber i) = i"
| "numeric_value (BLong w) = sint w"
| "numeric_value v = 0"

fun lex_le :: "nat list \<Rightarrow> nat list \<Rightarrow> bool" where
  "lex_le [] ys = True"
| "lex_le (x # xs) [] = False"
| "lex_le (x # xs) (y # ys) = (x < y \<or> (x = y \<and> lex_le xs ys))"

fun bson_le :: "bson \<Rightarrow> bson \<Rightarrow> bool" where
  "bson_le (BString s) (BString t) = lex_le (map of_char s) (map of_char t)"
| "bson_le (BBinary s) (BBinary t) =
     (length s < length t \<or> (length s = length t \<and> lex_le (map unat s) (map unat t)))"
| "bson_le a b =
     (if canonical_type a = canonical_type b then numeric_value a \<le> numeric_value b
      else canonical_type a < canonical_type b)"

definition bson_eq :: "bson \<Rightarrow> bson \<Rightarrow> bool" where
  "bson_eq a b =
     (if canonical_type a = 2 \<and> canonical_type b = 2 then numeric_value a = numeric_value b
      else a = b)"

section \<open>Operations and their stored form\<close>

text \<open>
  The interface \<open>IMongoOperation\<close> of the store: the operation index is stored under the
  shorter property name \<open>opIndex\<close>, the transaction number as a \<open>Long\<close>. The type
  parameter is what the property \<open>transactionNumber\<close> holds: a \<open>Long\<close> in the object
  that is stored, as the interface declares it, and what the driver made of that long
  in the object of type \<open>any\<close> that \<open>find\<close> returns.
\<close>

record 'n IMongoOperation =
  didUniqueSuffix :: string
  operationBufferBsonBinary :: Buffer
  opIndex :: int
  transactionNumber :: 'n
  transactionTime :: int
  batchFileHash :: string

type_synonym stored_document = "Long IMongoOperation"

type_synonym found_document = "promoted_long IMongoOperation"

text \<open>
  Modelled from the spec: the class \<open>Operation\<close> (\<open>./Operation\<close> is not among the sources).
  It is the Operation Record of the data model, with the six fields listed there; the
  store reads the last four with a non-null assertion, so they are present. The type
  parameter is what the field \<open>transactionNumber\<close> holds: a number (\<open>int\<close>) in an
  operation handed to \<open>put\<close>, and in an operation that \<open>get\<close> returns whatever the
  object returned by \<open>find\<close> held, since \<open>convertToOperation\<close> passes it on.
\<close>

record 'n Operation =
  didUniqueSuffix :: string
  operationBuffer :: Buffer
  operationIndex :: int
  transactionNumber :: 'n
  transactionTime :: int
  batchFileHash :: string

text \<open>
  The resolved transaction handed to \<open>Operation.createAnchoredOperation\<close>, with the
  properties of the object that \<open>convertToOperation\<close> builds.
\<close>

record 'n IResolvedTransaction =
  transactionNumber :: 'n
  transactionTime :: int
  transactionTimeHash :: string
  anchorFileHash :: string
  batchFileHash :: string

text \<open>
  Modelled from the spec: \<open>Operation.createAnchoredOperation\<close> (not among the sources).
  It takes the operation bytes, the resolved transaction and the operation index, and no
  DID suffix: the suffix of the record it builds is decoded from the bytes, by the
  decoding \<open>didOf\<close>, which is out of scope and a parameter here. The record keeps the
  transaction number, the transaction time and the batch file hash of the resolved
  transaction; the Operation Record has no field for the other two hashes.
\<close>

definition createAnchoredOperation ::
  "(Buffer \<Rightarrow> string) \<Rightarrow> Buffer \<Rightarrow> 'n IResolvedTransaction \<Rightarrow> int \<Rightarrow> 'n Operation" where
  "createAnchoredOperation didOf buffer resolvedTransaction index =
     \<lparr>Operation.didUniqueSuffix = didOf buffer,
      operationBuffer = buffer,
      operationIndex = index,
      Operation.transactionNumber = IResolvedTransaction.transactionNumber resolvedTransaction,
      Operation.transactionTime = IResolvedTransaction.transactionTime resolvedTransaction,
      Operation.batchFileHash = IResolvedTransaction.batchFileHash resolvedTransaction\<rparr>"

definition convertToMongoOperation :: "int Operation \<Rightarrow> stored_document" where
  "convertToMongoOperation operation =
     \<lparr>IMongoOperation.didUniqueSuffix = Operation.didUniqueSuffix operation,
      operationBufferBsonBinary = operationBuffer operation,
      opIndex = operationIndex operation,
      IMongoOperation.transactionNumber = Long_fromNumber (Operation.transactionNumber operation),
      IMongoOperation.transactionTime = Operation.transactionTime operation,
      IMongoOperation.batchFileHash = Operation.batchFileHash operation\<rparr>"

definition convertToOperation ::
  "(Buffer \<Rightarrow> string) \<Rightarrow> 'n IMongoOperation \<Rightarrow> 'n Operation" where
  "convertToOperation didOf mongoOperation =
     createAnchoredOperation didOf
       (operationBufferBsonBinary mongoOperation)
       \<lparr>IResolvedTransaction.transactionNumber =
          IMongoOperation.transactionNumber mongoOperation,
        IResolvedTransaction.transactionTime = IMongoOperation.transactionTime mongoOperation,
        transactionTimeHash = ''unavailable'',
        anchorFileHash = ''unavailable'',
        IResolvedTransaction.batchFileHash = IMongoOperation.batchFileHash mongoOperation\<rparr>
       (opIndex mongoOperation)"

section \<open>The MongoDB collection\<close>

text \<open>
  A stored document is read by property name, as queries, sort specifications and index
  keys do. A name that is no property of the document gives nothing.
\<close>

definition getField :: "string \<Rightarrow> stored_document \<Rightarrow> bson option" where
  "getField f d =
     (if f = ''didUniqueSuffix'' then Some (BString (IMongoOperation.didUniqueSuffix d))
      else if f = ''operationBufferBsonBinary'' then Some (BBinary (operationBufferBsonBinary d))
      else if f = ''opIndex'' then Some (BNumber (opIndex d))
      else if f = ''transactionNumber'' then Some (BLong (IMongoOperation.transactionNumber d))
      else if f = ''transactionTime'' then Some (BNumber (IMongoOperation.transactionTime d))
      else if f = ''batchFileHash'' then Some (BString (IMongoOperation.batchFileHash d))
      else None)"

text \<open>In a sort and in an index key a missing field counts as null.\<close>

definition field_or_null :: "string \<Rightarrow> stored_document \<Rightarrow> bson" where
  "field_or_null f d = (case getField f d of None \<Rightarrow> BNull | Some v \<Rightarrow> v)"

record index_spec =
  index_key :: "(string \<times> int) list"
  unique :: bool

record mongo_collection =
  documents :: "stored_document list"
  indexes :: "index_spec list"

text \<open>Queries: \<open>{f: v}\<close> and \<open>{f: {$gt: v}}\<close>; the empty query matches every document.\<close>

datatype condition = Eq bson | Gt bson

type_synonym query = "(string \<times> condition) list"

fun holds :: "condition \<Rightarrow> bson option \<Rightarrow> bool" where
  "holds (Eq v) None = (v = BNull)"
| "holds (Eq v) (Some x) = bson_eq x v"
| "holds (Gt v) None = False"
| "holds (Gt v) (Some x) = (canonical_type x = canonical_type v \<and> \<not> bson_le x v)"

fun matches :: "query \<Rightarrow> stored_document \<Rightarrow> bool" where
  "matches [] d = True"
| "matches ((f, c) # q) d = (holds c (getField f d) \<and> matches q d)"

text \<open>
  \<open>sort\<close>: the documents are compared key by key, \<open>1\<close> ascending and \<open>-1\<close> descending.
  Documents that agree on every key keep the order in which the collection holds them
  (the order of insertion); MongoDB promises no particular order among them.
\<close>

fun sort_le :: "(string \<times> int) list \<Rightarrow> stored_document \<Rightarrow> stored_document \<Rightarrow> bool" where
  "sort_le [] a b = True"
| "sort_le ((f, direction) # spec) a b =
     (if bson_le (field_or_null f a) (field_or_null f b) \<and>
         bson_le (field_or_null f b) (field_or_null f a)
      then sort_le spec a b
      else if direction < 0 then bson_le (field_or_null f b) (field_or_null f a)
      else bson_le (field_or_null f a) (field_or_null f b))"

fun insert_sorted ::
  "(string \<times> int) list \<Rightarrow> stored_document \<Rightarrow> stored_document list \<Rightarrow> stored_document list" where
  "insert_sorted spec d [] = [d]"
| "insert_sorted spec d (e # es) =
     (if sort_le spec d e then d # e # es else e # insert_sorted spec d es)"

fun sort_documents :: "(string \<times> int) list \<Rightarrow> stored_document list \<Rightarrow> stored_document list" where
  "sort_documents spec [] = []"
| "sort_documents spec (d # ds) = insert_sorted spec d (sort_documents spec ds)"

text \<open>
  \<open>find(q).sort(spec).toArray()\<close>: the matching documents, sorted, each as the object the
  driver makes of it, in which it has promoted the long.
\<close>

definition promoteLongs :: "stored_document \<Rightarrow> found_document" where
  "promoteLongs d =
     \<lparr>IMongoOperation.didUniqueSuffix = IMongoOperation.didUniqueSuffix d,
      operationBufferBsonBinary = operationBufferBsonBinary d,
      opIndex = opIndex d,
      IMongoOperation.transactionNumber = promoteLong (IMongoOperation.transactionNumber d),
      IMongoOperation.transactionTime = IMongoOperation.transactionTime d,
      IMongoOperation.batchFileHash = IMongoOperation.batchFileHash d\<rparr>"

definition find_sort_toArray ::
  "mongo_collection \<Rightarrow> query \<Rightarrow> (string \<times> int) list \<Rightarrow> found_document list" where
  "find_sort_toArray c q spec =
     map promoteLongs (sort_documents spec (filter (matches q) (documents c)))"

definition deleteMany :: "mongo_collection \<Rightarrow> query \<Rightarrow> mongo_collection" where
  "deleteMany c q = c\<lparr>documents := filter (\<lambda>d. \<not> matches q d) (documents c)\<rparr>"

definition createCollection :: mongo_collection where
  "createCollection = \<lparr>documents = [], indexes = []\<rparr>"

definition createIndex :: "mongo_collection \<Rightarrow> (string \<times> int) list \<Rightarrow> bool \<Rightarrow> mongo_collection" where
  "createIndex c keys uniq = c\<lparr>indexes := indexes c @ [\<lparr>index_key = keys, unique = uniq\<rparr>]\<rparr>"

text \<open>
  A unique index rejects a document whose key (the values of the key's fields) equals
  the key of a document already in the collection.
\<close>

fun same_key :: "(string \<times> int) list \<Rightarrow> stored_document \<Rightarrow> stored_document \<Rightarrow> bool" where
  "same_key [] a b = True"
| "same_key ((f, direction) # keys) a b =
     (bson_eq (field_or_null f a) (field_or_null f b) \<and> same_key keys a b)"

definition duplicate_key :: "index_spec list \<Rightarrow> stored_document list \<Rightarrow> stored_document \<Rightarrow> bool" where
  "duplicate_key ixs docs d =
     list_ex (\<lambda>ix. unique ix \<and> list_ex (\<lambda>e. same_key (index_key ix) e d) docs) ixs"

text \<open>
  An unordered bulk insert tries every document of the batch, in the order of the batch
  here. A rejected document leaves a write error with its position in the batch and the
  code 11000 (duplicate key); the others are inserted.
\<close>

record write_error =
  batch_position :: nat
  write_code :: int

fun insert_unordered ::
  "index_spec list \<Rightarrow> stored_document list \<Rightarrow> nat \<Rightarrow> stored_document list
     \<Rightarrow> stored_document list \<times> write_error list" where
  "insert_unordered ixs docs i [] = (docs, [])"
| "insert_unordered ixs docs i (d # batch) =
     (if duplicate_key ixs docs d
      then (case insert_unordered ixs docs (Suc i) batch of
              (docs', errors) \<Rightarrow> (docs', \<lparr>batch_position = i, write_code = 11000\<rparr> # errors))
      else insert_unordered ixs (docs @ [d]) (Suc i) batch)"

text \<open>
  \<open>batch.execute()\<close> on a database that answers: an empty batch is refused by the driver
  (``no operations specified''); write errors are reported, after the whole batch was
  tried, as one \<open>BulkWriteError\<close> that carries the code of the first of them.
\<close>

type_synonym bulk_execute =
  "mongo_collection \<Rightarrow> stored_document list \<Rightarrow> js_error option \<times> mongo_collection"

definition execute :: bulk_execute where
  "execute c batch =
     (if batch = [] then (Some \<lparr>error_name = ''MongoError'', error_code = JUndefined\<rparr>, c)
      else (case insert_unordered (indexes c) (documents c) 0 batch of
              (docs', errors) \<Rightarrow>
                ((case errors of
                    [] \<Rightarrow> None
                  | e # es \<Rightarrow>
                      Some \<lparr>error_name = ''BulkWriteError'', error_code = JNumber (write_code e)\<rparr>),
                 c\<lparr>documents := docs'\<rparr>)))"

section \<open>MongoDbOperationStore\<close>

text \<open>
  The state of the object: its constructor's parameters and \<open>this.collection\<close>, undefined
  until \<open>initialize\<close> has run. The collection is held with its content: the store is its
  only writer.
\<close>

record MongoDbOperationStore =
  serverUrl :: string
  databaseName :: string
  operationCollectionName :: string
  collection :: "mongo_collection option"

definition new_MongoDbOperationStore ::
  "string \<Rightarrow> string option \<Rightarrow> string option \<Rightarrow> MongoDbOperationStore" where
  "new_MongoDbOperationStore url dbName collName =
     \<lparr>serverUrl = url,
      databaseName = (case dbName of None \<Rightarrow> ''sidetree''
                      | Some n \<Rightarrow> if n = [] then ''sidetree'' else n),
      operationCollectionName = (case collName of None \<Rightarrow> ''operations''
                      | Some n \<Rightarrow> if n = [] then ''operations'' else n),
      collection = None\<rparr>"

definition operation_index_key :: "(string \<times> int) list" where
  "operation_index_key = [(''didUniqueSuffix'', 1), (''transactionNumber'', 1), (''opIndex'', 1)]"

text \<open>
  \<open>initialize\<close>: \<open>db\<close> is the database of the server, its collections by name. An existing
  operation collection is used as it is; otherwise the collection is created, and the
  unique index on it.
\<close>

definition initialize ::
  "(string \<rightharpoonup> mongo_collection) \<Rightarrow> MongoDbOperationStore \<Rightarrow> MongoDbOperationStore" where
  "initialize db this =
     (case db (operationCollectionName this) of
        Some c \<Rightarrow> this\<lparr>collection := Some c\<rparr>
      | None \<Rightarrow> this\<lparr>collection := Some (createIndex createCollection operation_index_key True)\<rparr>)"

text \<open>
  \<open>put\<close>: \<open>exec\<close> is the driver's \<open>batch.execute()\<close>; it returns the error it throws, if
  any, and the collection it leaves. Calling a method of the undefined collection is a
  \<open>TypeError\<close>.
\<close>

definition put ::
  "bulk_execute \<Rightarrow> MongoDbOperationStore \<Rightarrow> int Operation list
     \<Rightarrow> (js_error + unit) \<times> MongoDbOperationStore" where
  "put exec this operations =
     (case collection this of
        None \<Rightarrow> (Inl TypeError, this)
      | Some c \<Rightarrow>
          (case exec c (map convertToMongoOperation operations) of
             (None, c') \<Rightarrow> (Inr (), this\<lparr>collection := Some c'\<rparr>)
           | (Some error, c') \<Rightarrow>
               (if error_name error \<noteq> ''BulkWriteError'' \<or> error_code error \<noteq> JNumber 11000
                then Inl error else Inr (),
                this\<lparr>collection := Some c'\<rparr>)))"

definition get ::
  "(Buffer \<Rightarrow> string) \<Rightarrow> MongoDbOperationStore \<Rightarrow> string
     \<Rightarrow> js_error + promoted_long Operation list" where
  "get didOf this did =
     (case collection this of
        None \<Rightarrow> Inl TypeError
      | Some c \<Rightarrow>
          Inr (map (convertToOperation didOf)
                 (find_sort_toArray c [(''didUniqueSuffix'', Eq (BString did))]
                    [(''transactionNumber'', 1), (''operationIndex'', 1)])))"

text \<open>
  \<open>delete\<close>: the test \<open>if (transactionNumber)\<close> fails for an absent argument and for
  the number 0, which JavaScript takes for false.
\<close>

definition delete ::
  "MongoDbOperationStore \<Rightarrow> int option \<Rightarrow> (js_error + unit) \<times> MongoDbOperationStore" where
  "delete this txn =
     (case collection this of
        None \<Rightarrow> (Inl TypeError, this)
      | Some c \<Rightarrow>
          (case txn of
             None \<Rightarrow> (Inr (), this\<lparr>collection := Some (deleteMany c [])\<rparr>)
           | Some n \<Rightarrow>
               if n \<noteq> 0
               then (Inr (), this\<lparr>collection :=
                       Some (deleteMany c [(''transactionNumber'', Gt (BLong (Long_fromNumber n)))])\<rparr>)
               else (Inr (), this\<lparr>collection := Some (deleteMany c [])\<rparr>)))"

section \<open>The content fetch result\<close>

text \<open>
  Modelled from the spec: the enumeration \<open>FetchResultCode\<close> (\<open>./FetchResultCode\<close> is not
  among the sources), the closed set of outcomes of a fetch: success, not found, invalid
  hash, content exceeding the maximum allowed size, not a file.
\<close>

datatype FetchResultCode = Success | NotFound | InvalidHash | MaxSizeExceeded | NotAFile

text \<open>The interface \<open>IFetchResult\<close>: a code, and the content, which is optional.\<close>

record IFetchResult =
  code :: FetchResultCode
  content :: "Buffer option"

text \<open>
  Modelled from the spec: the fetch from content addressable storage that produces an
  \<open>IFetchResult\<close> (not among the sources). What the storage answers is one of the
  recognised outcomes; only the success carries the bytes of the object.
\<close>

datatype fetch_outcome =
  ContentRetrieved Buffer
  | NoObjectAtAddress
  | MalformedAddress
  | RetrievalAbortedBySize
  | NotAFlatByteStream

fun fetch_result :: "fetch_outcome \<Rightarrow> IFetchResult" where
  "fetch_result (ContentRetrieved bytes) = \<lparr>code = Success, content = Some bytes\<rparr>"
| "fetch_result NoObjectAtAddress = \<lparr>code = NotFound, content = None\<rparr>"
| "fetch_result MalformedAddress = \<lparr>code = InvalidHash, content = None\<rparr>"
| "fetch_result RetrievalAbortedBySize = \<lparr>code = MaxSizeExceeded, content = None\<rparr>"
| "fetch_result NotAFlatByteStream = \<lparr>code = NotAFile, content = None\<rparr>"

section \<open>The HTTP edge of the blockchain service\<close>

text \<open>
  Modelled from the spec: the enumeration \<open>ErrorCode\<close> (\<open>lib/common/ErrorCode\<close> is not among
  the sources; the test of the service names its member), with the error of the
  reorganisation signal.
\<close>

datatype ErrorCode = InvalidTransactionNumberOrTimeHash

text \<open>
  Modelled from the spec: the string of an error code, the ``stable machine-readable
  error code string equal to \<open>InvalidTransactionNumberOrTimeHash\<close>''.
\<close>

fun ErrorCode_string :: "ErrorCode \<Rightarrow> string" where
  "ErrorCode_string InvalidTransactionNumberOrTimeHash = ''InvalidTransactionNumberOrTimeHash''"

text \<open>
  Modelled from the spec: \<open>ResponseStatus\<close> (\<open>lib/common/Response\<close> is not among the
  sources; the test names \<open>ResponseStatus.BadRequest\<close> and expects the status 400 for it)
  with a client error, a server error and the success, and their HTTP status codes.
\<close>

datatype ResponseStatus = BadRequest | ServerError | Succeeded

fun http_status :: "ResponseStatus \<Rightarrow> nat" where
  "http_status BadRequest = 400"
| "http_status ServerError = 500"
| "http_status Succeeded = 200"

text \<open>
  Modelled from the spec: what the \<open>transactions\<close> query of the service throws, a
  \<open>RequestError\<close> built from a response status and an error code
  (\<open>lib/bitcoin/RequestError\<close> is not among the sources; the test builds one), or any
  other, internal error.
\<close>

datatype service_error = RequestError ResponseStatus ErrorCode | InternalError string

text \<open>
  Modelled from the spec: the status with which an error code is rendered. The
  reorganisation error ``must be rendered as a client error''.
\<close>

fun ErrorCode_status :: "ErrorCode \<Rightarrow> ResponseStatus" where
  "ErrorCode_status InvalidTransactionNumberOrTimeHash = BadRequest"

text \<open>An HTTP response: the status and the properties of the JSON body.\<close>

datatype json = JsonString string | JsonNumber int | JsonArray "json list"

record http_response =
  status :: nat
  body :: "(string \<times> json) list"

text \<open>
  Modelled from the spec: the rendering of the outcome of the \<open>transactions\<close> query at the
  HTTP edge (the server is not among the sources; only its test is). The outcome is
  either the transactions (here their numbers) or the error thrown. An error with a code
  is rendered by its code, with the status of that code and the string of the code in
  the field \<open>code\<close> of the JSON body; any other error as a server error that shows no
  internal detail.
\<close>

fun transactions_response :: "service_error + int list \<Rightarrow> http_response" where
  "transactions_response (Inr transactions) =
     \<lparr>status = http_status Succeeded,
      body = [(''transactions'', JsonArray (map JsonNumber transactions))]\<rparr>"
| "transactions_response (Inl (RequestError responseStatus errorCode)) =
     \<lparr>status = http_status (ErrorCode_status errorCode),
      body = [(''code'', JsonString (ErrorCode_string errorCode))]\<rparr>"
| "transactions_response (Inl (InternalError detail)) =
     \<lparr>status = http_status ServerError, body = []\<rparr>"

text \<open>
  Modelled from the spec: the handler of \<open>GET /transactions\<close>. It hands the parameters
  \<open>since\<close> and \<open>transaction-time-hash\<close> of the request to the \<open>transactions\<close> query of the
  service, a parameter here, and renders the outcome.
\<close>

type_synonym transactions_query = "int option \<Rightarrow> string option \<Rightarrow> service_error + int list"

definition get_transactions ::
  "transactions_query \<Rightarrow> int option \<Rightarrow> string option \<Rightarrow> http_response" where
  "get_transactions query since timeHash = transactions_response (query since timeHash)"

text \<open>
  The query that the test of the service puts in the place of the real one: it throws
  the reorganisation error whatever the request.
\<close>

definition fakeGetTransactionsMethod :: transactions_query where
  "fakeGetTransactionsMethod since timeHash =
     Inl (RequestError BadRequest InvalidTransactionNumberOrTimeHash)"

section \<open>Sample data\<close>

text \<open>
  An anchored operation with empty bytes (its transaction number a number in an operation
  to put, what the driver hands on in one that \<open>get\<close> returned), and a store as \<open>initialize\<close> leaves it on a
  database without the operation collection, holding the given documents.
\<close>

definition sample_operation :: "string \<Rightarrow> 'n \<Rightarrow> int \<Rightarrow> 'n Operation" where
  "sample_operation did txn index =
     \<lparr>Operation.didUniqueSuffix = did, operationBuffer = [], operationIndex = index,
      Operation.transactionNumber = txn, Operation.transactionTime = 0,
      Operation.batchFileHash = ''hash''\<rparr>"

definition sample_store :: "stored_document list \<Rightarrow> MongoDbOperationStore" where
  "sample_store docs =
     (new_MongoDbOperationStore ''mongodb://localhost'' None None)
       \<lparr>collection := Some \<lparr>documents = docs,
            indexes = [\<lparr>index_key = operation_index_key, unique = True\<rparr>]\<rparr>\<rparr>"

text \<open>A server that cannot be reached: \<open>execute\<close> throws and nothing is written.\<close>

definition unreachable_server :: bulk_execute where
  "unreachable_server c batch =
     (Some \<lparr>error_name = ''MongoNetworkError'', error_code = JUndefined\<rparr>, c)"

text \<open>The key of a stored document under the index of the store.\<close>

definition stored_key :: "stored_document \<Rightarrow> string \<times> Long \<times> int" where
  "stored_key d =
     (IMongoOperation.didUniqueSuffix d, IMongoOperation.transactionNumber d, opIndex d)"

text \<open>
  The states of the store: \<open>initialize\<close> on a database that has no operation collection
  yet, then any sequence of \<open>put\<close> and \<open>delete\<close>.
\<close>

definition stored_documents :: "MongoDbOperationStore \<Rightarrow> stored_document list" where
  "stored_documents this = (case collection this of None \<Rightarrow> [] | Some c \<Rightarrow> documents c)"

inductive reachable :: "MongoDbOperationStore \<Rightarrow> bool" where
  reachable_initialize:
    "db (operationCollectionName this) = None \<Longrightarrow> reachable (initialize db this)"
| reachable_put:
    "reachable this \<Longrightarrow> reachable (snd (put execute this operations))"
| reachable_delete:
    "reachable this \<Longrightarrow> reachable (snd (delete this txn))"


section \<open>Conversions between numbers and longs\<close>

lemma sint_word_of_int_64:
  "- (2 ^ 63) \<le> n \<Longrightarrow> n < 2 ^ 63 \<Longrightarrow> sint (word_of_int n :: 64 word) = n"
  by (simp add: sint_sbintrunc' signed_take_bit_int_eq_self)

lemma sint_Long_fromNumber:
  "- (2 ^ 63) \<le> n \<Longrightarrow> n < 2 ^ 63 \<Longrightarrow> sint (Long_fromNumber n) = n"
  by (simp add: Long_fromNumber_def Long_MIN_VALUE_def Long_MAX_VALUE_def sint_word_of_int_64)



lemma sint_Long_less: "sint (w :: Long) < 2 ^ 63"
  using sint_lt [of w] by simp

lemma sint_Long_fromNumber_top:
  "2 ^ 63 \<le> n + 1 \<Longrightarrow> sint (Long_fromNumber n) = 2 ^ 63 - 1"
  by (simp add: Long_fromNumber_def Long_MAX_VALUE_def)

section \<open>Queries, sorting and the unique index\<close>

lemma matches_did:
  "matches [(''didUniqueSuffix'', Eq (BString did))] d
   = (IMongoOperation.didUniqueSuffix d = did)"
  by (simp add: getField_def bson_eq_def)

lemma matches_gt:
  "matches [(''transactionNumber'', Gt (BLong w))] d
   = (sint w < sint (IMongoOperation.transactionNumber d))"
  by (auto simp: getField_def)

lemma set_insert_sorted: "set (insert_sorted spec d ds) = insert d (set ds)"
  by (induction ds) auto


text \<open>
  The sort that \<open>get\<close> asks for names the property \<open>operationIndex\<close>, which no stored
  document has: it orders by the transaction number alone. Naming \<open>opIndex\<close> orders by
  the pair.
\<close>

lemma sort_le_operationIndex:
  "sort_le [(''transactionNumber'', 1), (''operationIndex'', 1)] a b
   = (sint (IMongoOperation.transactionNumber a) \<le> sint (IMongoOperation.transactionNumber b))"
  by (auto simp: field_or_null_def getField_def signed_word_eqI)

lemma sort_le_operationIndex_ties:
  assumes "IMongoOperation.transactionNumber a = IMongoOperation.transactionNumber b"
  shows "sort_le [(''transactionNumber'', 1), (''operationIndex'', 1)] a b \<and>
         sort_le [(''transactionNumber'', 1), (''operationIndex'', 1)] b a"
  using assms by (simp add: sort_le_operationIndex del: sort_le.simps)

lemma sort_le_opIndex:
  "sort_le [(''transactionNumber'', 1), (''opIndex'', 1)] a b
   = (sint (IMongoOperation.transactionNumber a) < sint (IMongoOperation.transactionNumber b) \<or>
      (IMongoOperation.transactionNumber a = IMongoOperation.transactionNumber b \<and>
       opIndex a \<le> opIndex b))"
  by (auto simp: field_or_null_def getField_def signed_word_eqI)

lemma sorted_insert_sorted:
  assumes "sorted_wrt (\<lambda>a b. sint (IMongoOperation.transactionNumber a)
                           \<le> sint (IMongoOperation.transactionNumber b)) ds"
  shows "sorted_wrt (\<lambda>a b. sint (IMongoOperation.transactionNumber a)
                         \<le> sint (IMongoOperation.transactionNumber b))
     (insert_sorted [(''transactionNumber'', 1), (''operationIndex'', 1)] d ds)"
  using assms
proof (induction ds)
  case Nil
  then show ?case by simp
next
  case (Cons e es)
  show ?case
  proof (cases "sint (IMongoOperation.transactionNumber d)
                  \<le> sint (IMongoOperation.transactionNumber e)")
    case True
    with Cons.prems show ?thesis
      by (simp only: insert_sorted.simps sort_le_operationIndex if_True sorted_wrt.simps) force
  next
    case False
    with Cons show ?thesis
      by (simp only: insert_sorted.simps sort_le_operationIndex if_False sorted_wrt.simps
            set_insert_sorted) force
  qed
qed

lemma sorted_sort_documents:
  "sorted_wrt (\<lambda>a b. sint (IMongoOperation.transactionNumber a)
                    \<le> sint (IMongoOperation.transactionNumber b))
     (sort_documents [(''transactionNumber'', 1), (''operationIndex'', 1)] ds)"
  by (induction ds) (simp_all add: sorted_insert_sorted del: sort_le.simps insert_sorted.simps)

lemma same_key_operation_index:
  "same_key operation_index_key e d =
     (IMongoOperation.didUniqueSuffix e = IMongoOperation.didUniqueSuffix d \<and>
      IMongoOperation.transactionNumber e = IMongoOperation.transactionNumber d \<and>
      opIndex e = opIndex d)"
  by (auto simp: operation_index_key_def field_or_null_def getField_def bson_eq_def
      signed_word_eqI)

lemma same_key_stored_key: "same_key operation_index_key e d = (stored_key e = stored_key d)"
  by (auto simp: same_key_operation_index stored_key_def)

lemma duplicate_key_operation_index:
  assumes "\<lparr>index_key = operation_index_key, unique = True\<rparr> \<in> set ixs"
    and "e \<in> set docs"
    and "same_key operation_index_key e d"
  shows "duplicate_key ixs docs d"
  unfolding duplicate_key_def list_ex_iff
  using assms by force

lemma no_duplicate_key_fresh:
  assumes "\<lparr>index_key = operation_index_key, unique = True\<rparr> \<in> set ixs"
    and "\<not> duplicate_key ixs docs d"
  shows "stored_key d \<notin> stored_key ` set docs"
proof
  assume "stored_key d \<in> stored_key ` set docs"
  then obtain e where e: "e \<in> set docs" and k: "same_key operation_index_key e d"
    by (auto simp: same_key_stored_key)
  have "duplicate_key ixs docs d"
    by (rule duplicate_key_operation_index [OF assms(1) e k])
  with assms(2) show False ..
qed

text \<open>Under the unique index no bulk insert stores a key twice.\<close>

lemma insert_unordered_keys_distinct:
  assumes "\<lparr>index_key = operation_index_key, unique = True\<rparr> \<in> set ixs"
  shows "distinct (map stored_key docs) \<Longrightarrow>
     distinct (map stored_key (fst (insert_unordered ixs docs i batch)))"
proof (induction batch arbitrary: docs i)
  case Nil
  then show ?case by simp
next
  case (Cons d batch)
  show ?case
  proof (cases "duplicate_key ixs docs d")
    case True
    with Cons show ?thesis
      by (simp add: split_beta)
  next
    case False
    from no_duplicate_key_fresh [OF assms False] Cons.prems
    have "distinct (map stored_key (docs @ [d]))"
      by simp
    with False Cons.IH show ?thesis
      by simp
  qed
qed

lemma execute_duplicate:
  assumes "duplicate_key (indexes c) (documents c) d"
  shows "execute c [d]
    = (Some \<lparr>error_name = ''BulkWriteError'', error_code = JNumber 11000\<rparr>, c)"
  using assms by (simp add: execute_def)



section \<open>The store on an initialised collection\<close>


lemma get_initialised:
  assumes "collection this = Some c"
  shows "get didOf this did =
     Inr (map (convertToOperation didOf)
       (map promoteLongs
          (sort_documents [(''transactionNumber'', 1), (''operationIndex'', 1)]
             (filter (\<lambda>d. IMongoOperation.didUniqueSuffix d = did) (documents c)))))"
proof -
  have "matches [(''didUniqueSuffix'', Eq (BString did))]
      = (\<lambda>d. IMongoOperation.didUniqueSuffix d = did)"
    by (rule ext) (rule matches_did)
  then show ?thesis
    by (simp add: get_def assms find_sort_toArray_def)
qed

lemma get_unknown_did:
  assumes "collection this = Some c"
    and "\<forall>d \<in> set (documents c). IMongoOperation.didUniqueSuffix d \<noteq> did"
  shows "get didOf this did = Inr []"
proof -
  have "filter (\<lambda>d. IMongoOperation.didUniqueSuffix d = did) (documents c) = []"
    using assms(2) by (simp add: filter_empty_conv)
  then show ?thesis
    by (simp add: get_initialised [OF assms(1)])
qed

lemma deleteMany_above:
  assumes "- (2 ^ 63) \<le> n"
  shows "deleteMany c [(''transactionNumber'', Gt (BLong (Long_fromNumber n)))]
     = c\<lparr>documents :=
           filter (\<lambda>d. sint (IMongoOperation.transactionNumber d) \<le> n) (documents c)\<rparr>"
proof (cases "n < 2 ^ 63")
  case True
  with assms have "sint (Long_fromNumber n) = n"
    by (simp add: sint_Long_fromNumber)
  then show ?thesis
    by (simp add: deleteMany_def matches_gt not_less del: matches.simps)
next
  case False
  then have top: "sint (Long_fromNumber n) = 2 ^ 63 - 1"
    by (simp add: sint_Long_fromNumber_top)
  have a: "sint w \<le> n" for w :: Long
    using False sint_Long_less [of w] by simp
  have b: "\<not> sint (Long_fromNumber n) < sint w" for w :: Long
    using sint_Long_less [of w] by (simp add: top)
  show ?thesis
    by (simp add: deleteMany_def matches_gt a b del: matches.simps)
qed

text \<open>
  With a transaction number other than 0, \<open>delete\<close> keeps exactly the documents at or
  below it; without one it keeps none.
\<close>

lemma delete_above_threshold:
  assumes "collection this = Some c" and "n \<noteq> 0" and "- (2 ^ 63) \<le> n"
  shows "delete this (Some n) =
     (Inr (), this\<lparr>collection := Some (c\<lparr>documents :=
         filter (\<lambda>d. sint (IMongoOperation.transactionNumber d) \<le> n) (documents c)\<rparr>)\<rparr>)"
  using assms by (simp add: delete_def deleteMany_above)

lemma delete_all:
  assumes "collection this = Some c"
  shows "delete this None = (Inr (), this\<lparr>collection := Some (c\<lparr>documents := []\<rparr>)\<rparr>)"
  using assms by (simp add: delete_def deleteMany_def)

section \<open>The states reached from a new collection\<close>

lemma indexes_execute: "indexes (snd (execute c batch)) = indexes c"
  by (simp add: execute_def split_beta)

lemma documents_execute:
  "documents (snd (execute c batch)) = fst (insert_unordered (indexes c) (documents c) 0 batch)"
  by (cases batch) (simp_all add: execute_def split_beta)

lemma put_collection:
  assumes "collection this = Some c"
  shows "collection (snd (put exec this operations))
     = Some (snd (exec c (map convertToMongoOperation operations)))"
  using assms by (simp add: put_def split: prod.splits option.splits)

lemma delete_collection:
  assumes "collection this = Some c"
  shows "\<exists>q. collection (snd (delete this txn)) = Some (deleteMany c q)"
  using assms by (auto simp: delete_def split: option.splits)

text \<open>
  The store is initialised, its collection carries the unique index and no other, and
  no key is stored twice.
\<close>

lemma reachable_invariant:
  assumes "reachable this"
  shows "\<exists>c. collection this = Some c \<and>
             indexes c = [\<lparr>index_key = operation_index_key, unique = True\<rparr>] \<and>
             distinct (map stored_key (documents c))"
  using assms
proof (induction rule: reachable.induct)
  case (reachable_initialize db this)
  then show ?case
    by (simp add: initialize_def createIndex_def createCollection_def)
next
  case (reachable_put this operations)
  then obtain c where c: "collection this = Some c"
    and ix: "indexes c = [\<lparr>index_key = operation_index_key, unique = True\<rparr>]"
    and ds: "distinct (map stored_key (documents c))"
    by blast
  have "distinct (map stored_key
      (fst (insert_unordered (indexes c) (documents c) 0
              (map convertToMongoOperation operations))))"
    by (rule insert_unordered_keys_distinct [OF _ ds]) (simp add: ix)
  then show ?case
    by (simp add: put_collection [OF c] indexes_execute documents_execute ix)
next
  case (reachable_delete this txn)
  then obtain c where c: "collection this = Some c"
    and ix: "indexes c = [\<lparr>index_key = operation_index_key, unique = True\<rparr>]"
    and ds: "distinct (map stored_key (documents c))"
    by blast
  from delete_collection [OF c] obtain q
    where "collection (snd (delete this txn)) = Some (deleteMany c q)" ..
  with ix ds show ?case
    by (simp add: deleteMany_def distinct_map_filter)
qed

lemma reachable_sample_store_empty: "reachable (sample_store [])"
proof -
  have "reachable
      (initialize Map.empty (new_MongoDbOperationStore ''mongodb://localhost'' None None))"
    by (rule reachable_initialize) simp
  then show ?thesis
    by (simp add: initialize_def new_MongoDbOperationStore_def sample_store_def
        createIndex_def createCollection_def)
qed

lemma sample_put:
  "snd (put execute (sample_store []) [sample_operation ''did'' 7 2])
   = sample_store [convertToMongoOperation (sample_operation ''did'' 7 2)]"
  by (simp add: put_def execute_def sample_store_def duplicate_key_def)

section \<open>Rollback\<close>

text \<open>
  Claim C10: \<open>delete\<close> called with the transaction number 0 deletes every stored record,
  those with a transaction number at or below 0 too: the argument 0 takes the branch of
  the call without an argument, not the threshold ``greater than 0''.
\<close>

theorem delete_zero_deletes_everything:
  assumes "collection this = Some c"
  shows "delete this (Some 0) = (Inr (), this\<lparr>collection := Some (c\<lparr>documents := []\<rparr>)\<rparr>)
       \<and> delete this (Some 0) = delete this None"
  using assms by (simp add: delete_def deleteMany_def)

theorem delete_zero_deletes_everything_witness:
  "delete (sample_store (map convertToMongoOperation
       [sample_operation ''did'' (- 1) 0, sample_operation ''did'' 0 0,
        sample_operation ''did'' 5 0])) (Some 0)
   = (Inr (), sample_store [])"
  using delete_zero_deletes_everything [of "sample_store (map convertToMongoOperation
       [sample_operation ''did'' (- 1) 0, sample_operation ''did'' 0 0,
        sample_operation ''did'' 5 0])"]
  by (simp add: sample_store_def)

text \<open>
  Claim C1: \<open>delete\<close> with a transaction number \<open>n\<close> removes exactly the records whose
  transaction number is greater than \<open>n\<close>. At \<open>n = 0\<close> the store does otherwise: of the
  records with the transaction numbers 0 and 1 it should keep the first, and it keeps
  none.
\<close>

theorem delete_zero_removes_transaction_zero:
  "delete (sample_store (map convertToMongoOperation
       [sample_operation ''did'' 0 0, sample_operation ''did'' 1 0])) (Some 0)
   = (Inr (), sample_store [])"
  by (simp add: delete_def deleteMany_def sample_store_def)

section \<open>Reading the operations of a DID\<close>

text \<open>
  Claim C2: \<open>get\<close> returns the stored records of a DID ascending by the pair of
  transaction number and operation index. The store does otherwise when two records of
  one transaction were inserted out of order: put as index 1 then index 0, they come
  back as index 1 then index 0.
\<close>

theorem get_ignores_operation_index:
  "get (\<lambda>buffer. ''did'')
     (snd (put execute (sample_store [])
        [sample_operation ''did'' 1 1, sample_operation ''did'' 1 0]))
     ''did''
   = Inr [sample_operation ''did'' (Number 1) 1, sample_operation ''did'' (Number 1) 0]"
  by (simp add: put_def execute_def sample_store_def get_def find_sort_toArray_def
      duplicate_key_def convertToMongoOperation_def sample_operation_def getField_def
      field_or_null_def bson_eq_def convertToOperation_def createAnchoredOperation_def
      operation_index_key_def Long_fromNumber_def promoteLongs_def promoteLong_def)

theorem get_ignores_operation_index_witness:
  "(case get (\<lambda>buffer. ''did'')
           (snd (put execute (sample_store [])
              [sample_operation ''did'' 1 1, sample_operation ''did'' 1 0]))
           ''did'' of
      Inl error \<Rightarrow> []
    | Inr operations \<Rightarrow> map operationIndex operations) = [1, 0]"
  using get_ignores_operation_index by (simp add: sample_operation_def)

section \<open>Inserting operations\<close>

text \<open>
  Claim C3, as stated, fails: \<open>initialize\<close> uses an existing operation collection as it
  is, and on one without the unique index \<open>put\<close> of a record that is stored stores it a
  second time.
\<close>

theorem put_stored_key_without_index_counterexample:
  "stored_documents
     (initialize
        [''operations'' \<mapsto>
           \<lparr>documents = [convertToMongoOperation (sample_operation ''did'' 7 2)],
            indexes = []\<rparr>]
        (new_MongoDbOperationStore ''mongodb://localhost'' None None))
     = [convertToMongoOperation (sample_operation ''did'' 7 2)]
   \<and> stored_documents
       (snd (put execute
          (initialize
             [''operations'' \<mapsto>
                \<lparr>documents = [convertToMongoOperation (sample_operation ''did'' 7 2)],
                 indexes = []\<rparr>]
             (new_MongoDbOperationStore ''mongodb://localhost'' None None))
          [sample_operation ''did'' 7 2]))
     = [convertToMongoOperation (sample_operation ''did'' 7 2),
        convertToMongoOperation (sample_operation ''did'' 7 2)]"
  by (simp add: stored_documents_def initialize_def new_MongoDbOperationStore_def put_def
      execute_def duplicate_key_def)

text \<open>
  Claim C3, amended: for every state of the store whose collection carries the unique
  index on the key (DID suffix, transaction number, operation index), as \<open>initialize\<close>
  creates it with the collection, \<open>put\<close> of a record whose key is already stored leaves
  the content of the store as it is and raises no error.
\<close>

theorem put_stored_key_is_ignored:
  assumes "collection this = Some c"
    and "\<lparr>index_key = operation_index_key, unique = True\<rparr> \<in> set (indexes c)"
    and "\<exists>d \<in> set (documents c).
           IMongoOperation.didUniqueSuffix d = Operation.didUniqueSuffix operation \<and>
           IMongoOperation.transactionNumber d
             = Long_fromNumber (Operation.transactionNumber operation) \<and>
           opIndex d = operationIndex operation"
  shows "put execute this [operation] = (Inr (), this)"
proof -
  from assms(3) obtain e where e: "e \<in> set (documents c)"
    and k: "same_key operation_index_key e (convertToMongoOperation operation)"
    by (auto simp: same_key_operation_index convertToMongoOperation_def)
  have "duplicate_key (indexes c) (documents c) (convertToMongoOperation operation)"
    by (rule duplicate_key_operation_index [OF assms(2) e k])
  then have "execute c [convertToMongoOperation operation]
      = (Some \<lparr>error_name = ''BulkWriteError'', error_code = JNumber 11000\<rparr>, c)"
    by (rule execute_duplicate)
  with assms(1) show ?thesis
    by (simp add: put_def)
qed

theorem put_stored_key_is_ignored_witness:
  "put execute (sample_store [convertToMongoOperation (sample_operation ''did'' 7 2)])
       [sample_operation ''did'' 7 2]
   = (Inr (), sample_store [convertToMongoOperation (sample_operation ''did'' 7 2)])"
  using put_stored_key_is_ignored
    [of "sample_store [convertToMongoOperation (sample_operation ''did'' 7 2)]"
        "\<lparr>documents = [convertToMongoOperation (sample_operation ''did'' 7 2)],
          indexes = [\<lparr>index_key = operation_index_key, unique = True\<rparr>]\<rparr>"
        "sample_operation ''did'' 7 2"]
  by (simp add: sample_store_def convertToMongoOperation_def)

text \<open>
  Claim C4: whatever error the bulk write raises, \<open>put\<close> suppresses it if and only if it
  is a \<open>BulkWriteError\<close> with the code 11000; every other error is thrown on as it is.
  The bulk write is executed once: the collection is the one that execution left.
\<close>

theorem put_suppresses_only_duplicate_key_errors:
  assumes "collection this = Some c"
    and "exec c (map convertToMongoOperation operations) = (Some error, c')"
  shows "(fst (put exec this operations) = Inr ())
           = (error_name error = ''BulkWriteError'' \<and> error_code error = JNumber 11000)
       \<and> (fst (put exec this operations) = Inl error)
           = (\<not> (error_name error = ''BulkWriteError'' \<and> error_code error = JNumber 11000))
       \<and> snd (put exec this operations) = this\<lparr>collection := Some c'\<rparr>"
  using assms by (simp add: put_def)

theorem put_suppresses_only_duplicate_key_errors_witness:
  "put unreachable_server (sample_store []) [sample_operation ''did'' 7 2]
   = (Inl \<lparr>error_name = ''MongoNetworkError'', error_code = JUndefined\<rparr>, sample_store [])"
  using put_suppresses_only_duplicate_key_errors
    [of "sample_store []"
        "\<lparr>documents = [], indexes = [\<lparr>index_key = operation_index_key, unique = True\<rparr>]\<rparr>"
        unreachable_server "[sample_operation ''did'' 7 2]"
        "\<lparr>error_name = ''MongoNetworkError'', error_code = JUndefined\<rparr>"
        "\<lparr>documents = [], indexes = [\<lparr>index_key = operation_index_key, unique = True\<rparr>]\<rparr>"]
  by (simp add: sample_store_def unreachable_server_def prod_eq_iff)

section \<open>The transaction number as a 64-bit integer\<close>




section \<open>The conversions at the storage boundary\<close>




section \<open>The unique index\<close>

text \<open>
  Claim C9, as stated, fails. The first use of a store that was not initialised creates
  nothing: \<open>put\<close> raises a \<open>TypeError\<close>. And \<open>initialize\<close> creates no index on an operation
  collection that exists: on one without index the same record, put twice, is stored
  twice.
\<close>

theorem initialize_unique_index_counterexample:
  "put execute (new_MongoDbOperationStore ''mongodb://localhost'' None None)
       [sample_operation ''did'' 7 2]
     = (Inl TypeError, new_MongoDbOperationStore ''mongodb://localhost'' None None)
   \<and> collection
       (initialize [''operations'' \<mapsto> \<lparr>documents = [], indexes = []\<rparr>]
          (new_MongoDbOperationStore ''mongodb://localhost'' None None))
     = Some \<lparr>documents = [], indexes = []\<rparr>
   \<and> stored_documents
       (snd (put execute
          (snd (put execute
             (initialize [''operations'' \<mapsto> \<lparr>documents = [], indexes = []\<rparr>]
                (new_MongoDbOperationStore ''mongodb://localhost'' None None))
             [sample_operation ''did'' 7 2]))
          [sample_operation ''did'' 7 2]))
     = [convertToMongoOperation (sample_operation ''did'' 7 2),
        convertToMongoOperation (sample_operation ''did'' 7 2)]"
  by (simp add: stored_documents_def initialize_def new_MongoDbOperationStore_def put_def
      execute_def duplicate_key_def)

text \<open>
  Claim C9, amended: \<open>initialize\<close>, when the operation collection does not exist yet,
  creates the collection and on it an index that is unique on the DID suffix, the
  transaction number and the operation index (stored as \<open>opIndex\<close>). In every state that
  the store reaches from there by \<open>put\<close> and \<open>delete\<close> the collection carries this index,
  no key is stored twice, and \<open>put\<close> of a record whose key is stored is rejected by the
  index: the store stays as it is.
\<close>

theorem initialize_creates_unique_index:
  "(db (operationCollectionName this) = None \<longrightarrow>
      collection (initialize db this)
        = Some \<lparr>documents = [],
                indexes = [\<lparr>index_key = [(''didUniqueSuffix'', 1), (''transactionNumber'', 1),
                                          (''opIndex'', 1)],
                            unique = True\<rparr>]\<rparr>)
   \<and> (reachable s \<longrightarrow>
        (\<exists>c. collection s = Some c \<and>
             indexes c = [\<lparr>index_key = [(''didUniqueSuffix'', 1), (''transactionNumber'', 1),
                                       (''opIndex'', 1)],
                         unique = True\<rparr>] \<and>
             distinct (map stored_key (documents c))))
   \<and> (reachable s \<and>
        (\<exists>d \<in> set (stored_documents s).
           IMongoOperation.didUniqueSuffix d = Operation.didUniqueSuffix operation \<and>
           IMongoOperation.transactionNumber d
             = Long_fromNumber (Operation.transactionNumber operation) \<and>
           opIndex d = operationIndex operation) \<longrightarrow>
        put execute s [operation] = (Inr (), s))"
proof (intro conjI impI)
  assume "db (operationCollectionName this) = None"
  then show "collection (initialize db this)
        = Some \<lparr>documents = [],
                indexes = [\<lparr>index_key = [(''didUniqueSuffix'', 1), (''transactionNumber'', 1),
                                          (''opIndex'', 1)],
                            unique = True\<rparr>]\<rparr>"
    by (simp add: initialize_def createIndex_def createCollection_def operation_index_key_def)
next
  assume "reachable s"
  then show "\<exists>c. collection s = Some c \<and>
             indexes c = [\<lparr>index_key = [(''didUniqueSuffix'', 1), (''transactionNumber'', 1),
                                       (''opIndex'', 1)],
                         unique = True\<rparr>] \<and>
             distinct (map stored_key (documents c))"
    by (rule reachable_invariant [unfolded operation_index_key_def])
next
  assume a: "reachable s \<and>
        (\<exists>d \<in> set (stored_documents s).
           IMongoOperation.didUniqueSuffix d = Operation.didUniqueSuffix operation \<and>
           IMongoOperation.transactionNumber d
             = Long_fromNumber (Operation.transactionNumber operation) \<and>
           opIndex d = operationIndex operation)"
  then obtain c where c: "collection s = Some c"
    and ix: "indexes c = [\<lparr>index_key = operation_index_key, unique = True\<rparr>]"
    using reachable_invariant [of s] by blast
  from a c have d: "\<exists>d \<in> set (documents c).
           IMongoOperation.didUniqueSuffix d = Operation.didUniqueSuffix operation \<and>
           IMongoOperation.transactionNumber d
             = Long_fromNumber (Operation.transactionNumber operation) \<and>
           opIndex d = operationIndex operation"
    by (simp add: stored_documents_def)
  then obtain e where e: "e \<in> set (documents c)"
    and k: "same_key operation_index_key e (convertToMongoOperation operation)"
    by (auto simp: same_key_operation_index convertToMongoOperation_def)
  have i: "\<lparr>index_key = operation_index_key, unique = True\<rparr> \<in> set (indexes c)"
    by (simp add: ix)
  have "duplicate_key (indexes c) (documents c) (convertToMongoOperation operation)"
    by (rule duplicate_key_operation_index [OF i e k])
  then have "execute c [convertToMongoOperation operation]
      = (Some \<lparr>error_name = ''BulkWriteError'', error_code = JNumber 11000\<rparr>, c)"
    by (rule execute_duplicate)
  with c show "put execute s [operation] = (Inr (), s)"
    by (simp add: put_def)
qed

theorem initialize_creates_unique_index_witness:
  "initialize Map.empty (new_MongoDbOperationStore ''mongodb://localhost'' None None)
     = sample_store []
   \<and> reachable (sample_store [convertToMongoOperation (sample_operation ''did'' 7 2)])
   \<and> put execute (sample_store [convertToMongoOperation (sample_operation ''did'' 7 2)])
        [sample_operation ''did'' 7 2]
     = (Inr (), sample_store [convertToMongoOperation (sample_operation ''did'' 7 2)])"
proof -
  have "reachable (snd (put execute (sample_store []) [sample_operation ''did'' 7 2]))"
    by (rule reachable_put) (rule reachable_sample_store_empty)
  then have r: "reachable (sample_store [convertToMongoOperation (sample_operation ''did'' 7 2)])"
    by (simp only: sample_put)
  have k: "\<exists>d \<in> set (stored_documents
                       (sample_store [convertToMongoOperation (sample_operation ''did'' 7 2)])).
           IMongoOperation.didUniqueSuffix d
             = Operation.didUniqueSuffix (sample_operation ''did'' (7 :: int) 2) \<and>
           IMongoOperation.transactionNumber d
             = Long_fromNumber (Operation.transactionNumber (sample_operation ''did'' 7 2)) \<and>
           opIndex d = operationIndex (sample_operation ''did'' (7 :: int) 2)"
    by (simp add: stored_documents_def sample_store_def convertToMongoOperation_def)
  from initialize_creates_unique_index
    [of Map.empty "new_MongoDbOperationStore ''mongodb://localhost'' None None"
        "sample_store [convertToMongoOperation (sample_operation ''did'' 7 2)]"
        "sample_operation ''did'' 7 2"]
    r k
  show ?thesis
    by (simp add: sample_store_def operation_index_key_def new_MongoDbOperationStore_def
        initialize_def createIndex_def createCollection_def)
qed

section \<open>Fetch results and the HTTP edge\<close>

text \<open>
  Claim C5, as stated, fails: the interface \<open>IFetchResult\<close> makes the content optional
  whatever the code. A value of the type carries content beside the code of an object
  not found, and another has the success code and no content.
\<close>

theorem IFetchResult_content_counterexample:
  "\<not> ((content \<lparr>code = NotFound, content = Some []\<rparr> \<noteq> None)
        = (code \<lparr>code = NotFound, content = Some []\<rparr> = Success))
   \<and> \<not> ((content \<lparr>code = Success, content = None\<rparr> \<noteq> None)
        = (code \<lparr>code = Success, content = None\<rparr> = Success))"
  by simp

text \<open>
  Claim C5, amended: for every result that the fetch builds for one of the recognised
  outcomes, the content is present if and only if the code is the success value; no such
  result carries content beside another code.
\<close>

theorem fetch_result_content_iff_success:
  "(content (fetch_result outcome) \<noteq> None) = (code (fetch_result outcome) = Success)"
  by (cases outcome) simp_all

text \<open>
  Claim C6: whenever the transactions query fails with the error
  \<open>InvalidTransactionNumberOrTimeHash\<close>, whatever the request and whatever status the
  error was built with, the response has a status of the 400 class and a JSON body whose
  field \<open>code\<close> is the string \<open>InvalidTransactionNumberOrTimeHash\<close>, and it holds no
  transactions.
\<close>

theorem reorganisation_error_is_client_error:
  assumes "query since timeHash
             = Inl (RequestError responseStatus InvalidTransactionNumberOrTimeHash)"
  shows "400 \<le> status (get_transactions query since timeHash) \<and>
     status (get_transactions query since timeHash) < 500 \<and>
     map_of (body (get_transactions query since timeHash)) ''code''
       = Some (JsonString ''InvalidTransactionNumberOrTimeHash'') \<and>
     map_of (body (get_transactions query since timeHash)) ''transactions'' = None"
  using assms by (simp add: get_transactions_def)

theorem reorganisation_error_is_client_error_witness:
  "get_transactions fakeGetTransactionsMethod (Some 6212927891701761) (Some ''dummyHash'')
   = \<lparr>status = 400, body = [(''code'', JsonString ''InvalidTransactionNumberOrTimeHash'')]\<rparr>"
  using reorganisation_error_is_client_error
    [of fakeGetTransactionsMethod "Some 6212927891701761" "Some ''dummyHash''" BadRequest]
  by (simp add: fakeGetTransactionsMethod_def get_transactions_def)

end
